theory Spec2Isabelle
  imports Main "HOL-Library.Word"
begin

section \<open>Machine integers of the program\<close>

text \<open>
  The program \<^verbatim>\<open>integer_overflow_good.c\<close> works on two \<^verbatim>\<open>uint8_t\<close> operands.
  C evaluates \<^verbatim>\<open>UINT8_MAX - a < b\<close> and \<^verbatim>\<open>a + b\<close> in \<^verbatim>\<open>int\<close>: both operands
  undergo the integer promotions first. The \<^verbatim>\<open>int\<close> of the model is the 32-bit
  two's complement integer, read through \<open>sint\<close>; its arithmetic wraps, so that the
  absence of wrap-around is a theorem and not an assumption.
\<close>

type_synonym u8 = "8 word"
type_synonym c_int = "32 word"

definition UINT8_MAX :: c_int where
  "UINT8_MAX = 255"

text \<open>Integer promotion of a \<^verbatim>\<open>uint8_t\<close> to \<^verbatim>\<open>int\<close>: zero extension.\<close>

definition promote :: "u8 \<Rightarrow> c_int" where
  "promote x = ucast x"

text \<open>Conversion of an \<^verbatim>\<open>int\<close> to \<^verbatim>\<open>uint8_t\<close> in an initialisation: reduction modulo 256.\<close>

definition to_u8 :: "c_int \<Rightarrow> u8" where
  "to_u8 x = ucast x"

text \<open>The controlling expression of the \<^verbatim>\<open>if\<close>: \<^verbatim>\<open>UINT8_MAX - a < b\<close>, a signed comparison.\<close>

definition overflow_guard :: "u8 \<Rightarrow> u8 \<Rightarrow> bool" where
  "overflow_guard a b = word_sless (UINT8_MAX - promote a) (promote b)"

text \<open>The initialiser of \<^verbatim>\<open>uint8_t total = a + b\<close>.\<close>

definition total_of :: "u8 \<Rightarrow> u8 \<Rightarrow> u8" where
  "total_of a b = to_u8 (promote a + promote b)"

section \<open>Standard output and \<^verbatim>\<open>printf\<close>\<close>

text \<open>
  The process is modelled by what it could read (arguments, environment, standard
  input) and by the bytes written to standard output so far.
\<close>

record world =
  argv :: "string list"
  environ :: "string list"
  stdin :: string
  stdout :: string

definition newline :: char where
  "newline = CHR 0x0A"

definition digit_char :: "nat \<Rightarrow> char" where
  "digit_char d = char_of (48 + d)"

text \<open>The conversion \<^verbatim>\<open>%u\<close>: decimal digits, most significant first, no leading zero.\<close>

fun decimal :: "nat \<Rightarrow> string" where
  "decimal n = (if n < 10 then [digit_char n]
                else decimal (n div 10) @ [digit_char (n mod 10)])"

declare decimal.simps [simp del]

text \<open>
  The format strings of the program hold ordinary characters and \<^verbatim>\<open>%u\<close> only.
  An argument of \<^verbatim>\<open>%u\<close> is read as an \<^verbatim>\<open>unsigned int\<close>.
\<close>

fun format :: "string \<Rightarrow> c_int list \<Rightarrow> string" where
  "format [] args = []"
| "format (c # d # cs) (x # args) =
     (if c = CHR ''%'' \<and> d = CHR ''u'' then decimal (unat x) @ format cs args
      else c # format (d # cs) (x # args))"
| "format (c # cs) args = c # format cs args"

definition printf :: "string \<Rightarrow> c_int list \<Rightarrow> world \<Rightarrow> world" where
  "printf fmt args w = w\<lparr>stdout := stdout w @ format fmt args\<rparr>"

section \<open>The program\<close>

text \<open>
  The \<^verbatim>\<open>if\<close> statement of \<^verbatim>\<open>main\<close>, for operands \<open>a\<close> and \<open>b\<close>. The variable
  \<^verbatim>\<open>total\<close> exists in the \<^verbatim>\<open>else\<close> block only: the first component is its value
  when the block ran, and \<open>None\<close> when the addition was not performed.
\<close>

definition check_and_add :: "u8 \<Rightarrow> u8 \<Rightarrow> world \<Rightarrow> u8 option \<times> world" where
  "check_and_add a b w =
     (if overflow_guard a b
      then (None, printf (''Overflow detected!'' @ [newline]) [] w)
      else (let total = total_of a b
            in (Some total, printf (''Sum: %u'' @ [newline]) [promote total] w)))"

text \<open>\<^verbatim>\<open>main\<close> with its two initialisers as parameters: the statement, then \<^verbatim>\<open>return 0\<close>.\<close>

definition main_with :: "u8 \<Rightarrow> u8 \<Rightarrow> world \<Rightarrow> c_int \<times> world" where
  "main_with a b w = (let (total, w') = check_and_add a b w in (0, w'))"

text \<open>\<^verbatim>\<open>main\<close> as written: \<^verbatim>\<open>uint8_t a = 200, b = 100\<close>.\<close>

definition main :: "world \<Rightarrow> c_int \<times> world" where
  "main w = main_with 200 100 w"

text \<open>A process starts with nothing written to standard output.\<close>

definition start :: "string list \<Rightarrow> string list \<Rightarrow> string \<Rightarrow> world" where
  "start args env inp = \<lparr>argv = args, environ = env, stdin = inp, stdout = []\<rparr>"

definition run :: "string list \<Rightarrow> string list \<Rightarrow> string \<Rightarrow> c_int \<times> string" where
  "run args env inp = (let (rc, w) = main (start args env inp) in (rc, stdout w))"

text \<open>What the statement writes for operands \<open>a\<close> and \<open>b\<close>, from an empty output.\<close>

definition output_of :: "u8 \<Rightarrow> u8 \<Rightarrow> string" where
  "output_of a b = stdout (snd (main_with a b (start [] [] [])))"

section \<open>Reading the output\<close>

text \<open>
  The two lines the program can write, and the number a string of decimal digits
  denotes. They are used to state what is printed; the program does not compute them.
\<close>

definition overflow_line :: string where
  "overflow_line = ''Overflow detected!'' @ [newline]"

definition sum_line :: "nat \<Rightarrow> string" where
  "sum_line n = ''Sum: '' @ decimal n @ [newline]"

definition digit_val :: "char \<Rightarrow> nat" where
  "digit_val c = of_char c - 48"

definition decimal_value :: "string \<Rightarrow> nat" where
  "decimal_value s = foldl (\<lambda>acc c. 10 * acc + digit_val c) 0 s"

section \<open>Promotion and the guard\<close>

lemma uint_u8_le: "uint (a::u8) \<le> 255"
  using uint_lt2p [of a] by simp

lemma signed_take_bit_small:
  "0 \<le> k \<Longrightarrow> k \<le> 510 \<Longrightarrow> signed_take_bit 31 k = (k::int)"
  by (rule signed_take_bit_int_eq_self) simp_all

lemma sint_promote: "sint (promote a) = uint a"
proof -
  have "sint (promote a) = signed_take_bit 31 (uint a)"
    unfolding promote_def by (simp add: signed_ucast_eq)
  also have "\<dots> = uint a"
    using uint_nonnegative [of a] uint_u8_le [of a]
    by (intro signed_take_bit_small) linarith+
  finally show ?thesis .
qed

lemma uint_promote: "uint (promote a) = uint a"
  by (simp add: promote_def uint_up_ucast is_up)

lemma unat_promote: "unat (promote a) = unat a"
  unfolding unat_eq_nat_uint by (simp only: uint_promote)

lemma sint_guard_lhs: "sint (UINT8_MAX - promote a) = 255 - uint a"
proof -
  have "sint (UINT8_MAX - promote a) = signed_take_bit 31 (255 - uint a)"
    by (simp add: sint_word_ariths UINT8_MAX_def sint_promote)
  also have "\<dots> = 255 - uint a"
    using uint_nonnegative [of a] uint_u8_le [of a]
    by (intro signed_take_bit_small) linarith+
  finally show ?thesis .
qed

lemma overflow_guard_iff: "overflow_guard a b \<longleftrightarrow> 255 - uint a < uint b"
  by (simp add: overflow_guard_def word_sless_alt sint_guard_lhs sint_promote)

section \<open>The addition\<close>

lemma sint_promoted_sum: "sint (promote a + promote b) = uint a + uint b"
proof -
  have "sint (promote a + promote b) = signed_take_bit 31 (uint a + uint b)"
    by (simp add: sint_word_ariths sint_promote)
  also have "\<dots> = uint a + uint b"
    using uint_nonnegative [of a] uint_u8_le [of a] uint_nonnegative [of b] uint_u8_le [of b]
    by (intro signed_take_bit_small) linarith+
  finally show ?thesis .
qed

lemma total_of_eq_plus: "total_of a b = a + b"
proof -
  have "uint (total_of a b) = uint (a + b)"
    by (simp add: total_of_def to_u8_def unsigned_ucast_eq uint_word_ariths uint_promote
        take_bit_eq_mod mod_mod_cancel)
  then show ?thesis by (simp add: word_uint_eq_iff)
qed

lemma uint_total_of: "uint (total_of a b) = (uint a + uint b) mod 256"
  by (simp add: total_of_eq_plus uint_word_ariths)

lemma uint_total_of_exact:
  assumes "\<not> overflow_guard a b"
  shows "uint (total_of a b) = uint a + uint b"
proof -
  from assms have "uint a + uint b \<le> 255"
    by (simp add: overflow_guard_iff)
  moreover have "0 \<le> uint a + uint b"
    using uint_nonnegative [of a] uint_nonnegative [of b] by linarith
  ultimately show ?thesis
    by (simp add: uint_total_of)
qed

lemma unat_total_of_exact:
  assumes "\<not> overflow_guard a b"
  shows "unat (total_of a b) = unat a + unat b"
proof -
  have "int (unat (total_of a b)) = int (unat a + unat b)"
    using uint_total_of_exact [OF assms] by simp
  then show ?thesis by (simp only: of_nat_eq_iff)
qed

section \<open>Decimal digits\<close>

lemma digit_val_digit_char: "d < 10 \<Longrightarrow> digit_val (digit_char d) = d"
  by (simp add: digit_val_def digit_char_def)

lemma decimal_value_snoc: "decimal_value (s @ [c]) = 10 * decimal_value s + digit_val c"
  by (simp add: decimal_value_def)

lemma decimal_value_decimal: "decimal_value (decimal n) = n"
proof (induction n rule: decimal.induct)
  case (1 n)
  show ?case
  proof (cases "n < 10")
    case True
    then show ?thesis
      by (simp add: decimal.simps [of n] decimal_value_def digit_val_digit_char)
  next
    case False
    with "1" have "decimal_value (decimal (n div 10)) = n div 10" by simp
    with False show ?thesis
      by (simp add: decimal.simps [of n] decimal_value_snoc digit_val_digit_char)
  qed
qed

lemma digit_char_not_newline: "d < 10 \<Longrightarrow> digit_char d \<noteq> newline"
proof
  assume d: "d < 10" and eq: "digit_char d = newline"
  from eq have "(of_char (digit_char d) :: nat) = of_char newline" by simp
  with d show False by (simp add: digit_char_def newline_def)
qed

lemma newline_notin_decimal: "newline \<notin> set (decimal n)"
proof (induction n rule: decimal.induct)
  case (1 n)
  show ?case
  proof (cases "n < 10")
    case True
    then show ?thesis
      using digit_char_not_newline [of n] by (auto simp: decimal.simps [of n])
  next
    case False
    with "1" have "newline \<notin> set (decimal (n div 10))" by simp
    with False show ?thesis
      using digit_char_not_newline [of "n mod 10"] by (auto simp: decimal.simps [of n])
  qed
qed

lemma count_newline_decimal: "count_list (decimal n) newline = 0"
  using newline_notin_decimal [of n] by (simp add: count_list_0_iff)

section \<open>What each branch writes\<close>

lemma format_overflow: "format (''Overflow detected!'' @ [newline]) [] = overflow_line"
  by (simp add: overflow_line_def)

lemma format_sum: "format (''Sum: %u'' @ [newline]) [x] = sum_line (unat x)"
  by (simp add: sum_line_def)

lemma check_and_add_overflow:
  "overflow_guard a b \<Longrightarrow>
   check_and_add a b w = (None, w\<lparr>stdout := stdout w @ overflow_line\<rparr>)"
  by (simp add: check_and_add_def printf_def overflow_line_def)

lemma check_and_add_sum:
  "\<not> overflow_guard a b \<Longrightarrow>
   check_and_add a b w =
     (Some (total_of a b), w\<lparr>stdout := stdout w @ sum_line (unat (total_of a b))\<rparr>)"
  by (simp add: check_and_add_def printf_def sum_line_def unat_promote Let_def)

lemma sum_branch_taken:
  "uint b \<le> 255 - uint a \<Longrightarrow> fst (check_and_add a b w) = Some (total_of a b)"
  by (simp add: check_and_add_sum overflow_guard_iff)

lemma output_of_overflow: "overflow_guard a b \<Longrightarrow> output_of a b = overflow_line"
  by (simp add: output_of_def main_with_def check_and_add_overflow start_def)

lemma output_of_sum:
  "\<not> overflow_guard a b \<Longrightarrow> output_of a b = sum_line (unat (total_of a b))"
  by (simp add: output_of_def main_with_def check_and_add_sum start_def)

lemma main_with_appends: "stdout (snd (main_with a b w)) = stdout w @ output_of a b"
  by (cases "overflow_guard a b")
    (simp_all add: output_of_overflow output_of_sum main_with_def
      check_and_add_overflow check_and_add_sum)

lemma overflow_line_not_sum_line: "overflow_line \<noteq> sum_line n"
  by (simp add: overflow_line_def sum_line_def)

lemma one_newline_overflow_line:
  "count_list overflow_line newline = 1 \<and> last overflow_line = newline"
  by (simp add: overflow_line_def newline_def)

lemma one_newline_sum_line:
  "count_list (sum_line n) newline = 1 \<and> last (sum_line n) = newline"
proof -
  have "count_list (''Sum: '' @ decimal n @ [newline]) newline = 1"
    by (simp add: count_newline_decimal) (simp add: newline_def)
  then show ?thesis by (simp add: sum_line_def)
qed

section \<open>The claims\<close>

text \<open>
  C1. The program as written, with operands 200 and 100, writes exactly the line
  \<^verbatim>\<open>Overflow detected!\<close> to standard output: the left side of the guard is
  255 - 200 = 55, which is less than 100, so the overflow branch is taken.
\<close>

theorem main_prints_overflow:
  "stdout (snd (main w)) = stdout w @ ''Overflow detected!'' @ [newline]
   \<and> snd (run args env inp) = ''Overflow detected!'' @ [newline]
   \<and> sint (UINT8_MAX - promote 200) = 55
   \<and> sint (promote 100) = 100
   \<and> overflow_guard 200 100"
proof -
  have g: "overflow_guard 200 100"
    by (simp add: overflow_guard_iff)
  have m: "stdout (snd (main w')) = stdout w' @ ''Overflow detected!'' @ [newline]" for w'
    using g by (simp add: main_def main_with_appends output_of_overflow overflow_line_def)
  have "snd (run args env inp) = stdout (snd (main (start args env inp)))"
    by (simp add: run_def split_def Let_def)
  then have r: "snd (run args env inp) = ''Overflow detected!'' @ [newline]"
    by (simp add: m start_def)
  have "sint (UINT8_MAX - promote 200) = 55" "sint (promote 100) = 100"
    by (simp_all add: sint_guard_lhs sint_promote)
  with g m r show ?thesis by simp
qed

text \<open>
  C2. For all 8-bit operands \<open>a\<close> and \<open>b\<close> with 255 - a < b, the statement writes
  \<^verbatim>\<open>Overflow detected!\<close> and no sum line, and the addition is not performed:
  the variable \<^verbatim>\<open>total\<close> is never created.
\<close>

theorem overflow_branch_prints_overflow:
  "255 - uint a < uint b \<Longrightarrow>
     output_of a b = ''Overflow detected!'' @ [newline]
     \<and> stdout (snd (main_with a b w)) = stdout w @ ''Overflow detected!'' @ [newline]
     \<and> (\<forall>n. output_of a b \<noteq> sum_line n)
     \<and> fst (check_and_add a b w) = None"
proof -
  assume "255 - uint a < uint b"
  then have g: "overflow_guard a b"
    by (simp add: overflow_guard_iff)
  then have o: "output_of a b = overflow_line"
    by (rule output_of_overflow)
  have "\<forall>n. output_of a b \<noteq> sum_line n"
    by (simp add: o overflow_line_not_sum_line)
  moreover have "fst (check_and_add a b w) = None"
    using g by (simp add: check_and_add_overflow)
  moreover have "stdout (snd (main_with a b w)) = stdout w @ overflow_line"
    by (simp add: main_with_appends o)
  ultimately show ?thesis
    using o by (simp add: overflow_line_def)
qed

theorem overflow_branch_prints_overflow_witness:
  "255 - uint (1::u8) < uint (255::u8)
   \<and> (output_of 1 255 = ''Overflow detected!'' @ [newline]
      \<and> stdout (snd (main_with 1 255 (start [] [] []))) =
          stdout (start [] [] []) @ ''Overflow detected!'' @ [newline]
      \<and> (\<forall>n. output_of 1 255 \<noteq> sum_line n)
      \<and> fst (check_and_add 1 255 (start [] [] [])) = None)"
proof -
  have h: "255 - uint (1::u8) < uint (255::u8)" by simp
  show ?thesis
    by (rule conjI [OF h overflow_branch_prints_overflow [OF h]])
qed

text \<open>
  C3. For all 8-bit operands \<open>a\<close> and \<open>b\<close> with 255 - a \<ge> b, the statement writes
  \<^verbatim>\<open>Sum: \<close> followed by the decimal digits of the mathematical sum a + b (and the
  end of the line); the digits written denote exactly that sum.
\<close>

theorem sum_branch_prints_exact_sum:
  "uint b \<le> 255 - uint a \<Longrightarrow>
     output_of a b = ''Sum: '' @ decimal (unat a + unat b) @ [newline]
     \<and> stdout (snd (main_with a b w)) =
         stdout w @ ''Sum: '' @ decimal (unat a + unat b) @ [newline]
     \<and> decimal_value (decimal (unat a + unat b)) = unat a + unat b"
proof -
  assume "uint b \<le> 255 - uint a"
  then have g: "\<not> overflow_guard a b"
    by (simp add: overflow_guard_iff)
  then have o: "output_of a b = sum_line (unat a + unat b)"
    by (simp add: output_of_sum unat_total_of_exact)
  have "stdout (snd (main_with a b w)) = stdout w @ sum_line (unat a + unat b)"
    by (simp add: main_with_appends o)
  with o show ?thesis
    by (simp add: sum_line_def decimal_value_decimal)
qed

theorem sum_branch_prints_exact_sum_witness:
  "uint (50::u8) \<le> 255 - uint (100::u8)
   \<and> output_of 100 50 = ''Sum: 150'' @ [newline]
   \<and> decimal_value ''150'' = 150"
proof -
  have h: "uint (50::u8) \<le> 255 - uint (100::u8)" by simp
  have d: "decimal 150 = ''150''" by code_simp
  show ?thesis
    using h sum_branch_prints_exact_sum [OF h, of "start [] [] []"]
    by (simp add: d)
qed

text \<open>
  C4. On the branch without overflow the 8-bit addition cannot wrap: whenever the
  \<^verbatim>\<open>else\<close> block runs for 8-bit \<open>a\<close> and \<open>b\<close> and stores \<open>t\<close> in \<^verbatim>\<open>total\<close>, the
  guard was false, 255 - a \<ge> b holds and with it a + b \<le> 255, the \<^verbatim>\<open>int\<close> addition
  of the promoted operands is exact, and \<open>t\<close> is the mathematical sum.
\<close>

theorem sum_branch_no_wrap:
  "fst (check_and_add a b w) = Some t \<Longrightarrow>
     \<not> overflow_guard a b
     \<and> uint b \<le> 255 - uint a
     \<and> uint a + uint b \<le> 255
     \<and> sint (promote a + promote b) = uint a + uint b
     \<and> t = total_of a b
     \<and> uint t = uint a + uint b"
proof -
  assume r: "fst (check_and_add a b w) = Some t"
  have g: "\<not> overflow_guard a b"
  proof
    assume "overflow_guard a b"
    then have "fst (check_and_add a b w) = None"
      by (simp add: check_and_add_overflow)
    with r show False by simp
  qed
  then have h: "uint b \<le> 255 - uint a"
    by (simp add: overflow_guard_iff)
  then have le: "uint a + uint b \<le> 255" by linarith
  from g have "fst (check_and_add a b w) = Some (total_of a b)"
    by (simp add: check_and_add_sum)
  with r have t: "t = total_of a b" by simp
  from g have "uint (total_of a b) = uint a + uint b"
    by (rule uint_total_of_exact)
  with t have "uint t = uint a + uint b" by simp
  with g h le t show ?thesis
    by (simp add: sint_promoted_sum)
qed

theorem sum_branch_no_wrap_witness:
  "fst (check_and_add 200 55 (start [] [] [])) = Some 255
   \<and> (\<not> overflow_guard 200 55
      \<and> uint (55::u8) \<le> 255 - uint (200::u8)
      \<and> uint (200::u8) + uint (55::u8) \<le> 255
      \<and> sint (promote 200 + promote 55) = uint (200::u8) + uint (55::u8)
      \<and> 255 = total_of 200 55
      \<and> uint (255::u8) = uint (200::u8) + uint (55::u8))"
proof -
  have g: "\<not> overflow_guard 200 55"
    by (simp add: overflow_guard_iff)
  have h: "fst (check_and_add 200 55 (start [] [] [])) = Some 255"
    using g by (simp add: check_and_add_sum total_of_eq_plus)
  show ?thesis
    by (rule conjI [OF h sum_branch_no_wrap [OF h]])
qed

text \<open>
  C5. The guard is the glossary's overflow: for all 8-bit \<open>a\<close> and \<open>b\<close>, the test
  \<^verbatim>\<open>UINT8_MAX - a < b\<close> of the code, and the inequality 255 - a < b over the
  integers, hold exactly when the mathematical sum a + b exceeds 255.
\<close>

theorem guard_is_overflow:
  "overflow_guard a b = (255 < uint a + uint b)
   \<and> (255 - uint a < uint b) = (255 < uint a + uint b)"
proof -
  have "(255 - uint a < uint b) = (255 < uint a + uint b)" by linarith
  then show ?thesis by (simp add: overflow_guard_iff)
qed

text \<open>
  C6. The exit code is 0 for every pair of operands and on both branches: after
  the \<^verbatim>\<open>if\<close> statement control reaches the same \<^verbatim>\<open>return 0\<close>.
\<close>

theorem exit_code_zero:
  "fst (main_with a b w) = 0 \<and> fst (main w) = 0 \<and> fst (run args env inp) = 0"
  by (simp add: main_def main_with_def run_def split_def Let_def)

text \<open>
  C7. Every run writes exactly one line: the output holds one end-of-line
  character, at its end, and it is either the line \<^verbatim>\<open>Overflow detected!\<close> or the
  line \<^verbatim>\<open>Sum: \<close> with the decimal digits of the unsigned sum, never both.
\<close>

theorem exactly_one_line:
  "count_list (output_of a b) newline = 1
   \<and> last (output_of a b) = newline
   \<and> ((output_of a b = overflow_line \<and> (\<forall>n. output_of a b \<noteq> sum_line n))
      \<or> (output_of a b = sum_line (unat (total_of a b)) \<and> output_of a b \<noteq> overflow_line))"
proof (cases "overflow_guard a b")
  case True
  then have o: "output_of a b = overflow_line"
    by (rule output_of_overflow)
  show ?thesis
    using one_newline_overflow_line by (simp add: o overflow_line_not_sum_line)
next
  case False
  then have o: "output_of a b = sum_line (unat (total_of a b))"
    by (rule output_of_sum)
  have "sum_line (unat (total_of a b)) \<noteq> overflow_line"
    using overflow_line_not_sum_line [of "unat (total_of a b)"] by simp
  then show ?thesis
    using one_newline_sum_line [of "unat (total_of a b)"] by (simp add: o)
qed

text \<open>
  C8. Boundary case: with operands 0 and 255 the left side of the guard is
  255 - 0 = 255, which is not less than 255; the branch without overflow is taken
  and the output is \<^verbatim>\<open>Sum: 255\<close>.
\<close>

theorem boundary_0_255:
  "sint (UINT8_MAX - promote 0) = 255
   \<and> sint (promote 255) = 255
   \<and> \<not> overflow_guard 0 255
   \<and> output_of 0 255 = ''Sum: 255'' @ [newline]"
proof -
  have g: "\<not> overflow_guard 0 255"
    by (simp add: overflow_guard_iff)
  have t: "unat (total_of 0 255) = 255"
    by (simp add: total_of_eq_plus)
  have d: "decimal 255 = ''255''" by code_simp
  have "output_of 0 255 = ''Sum: 255'' @ [newline]"
    using g by (simp add: output_of_sum t sum_line_def d)
  moreover have "sint (UINT8_MAX - promote 0) = 255" "sint (promote 255) = 255"
    by (simp_all add: sint_guard_lhs sint_promote)
  ultimately show ?thesis using g by simp
qed

text \<open>
  C9. The program is deterministic and independent of its input: whatever the
  arguments, the environment and the standard input of two runs are, both write
  the same bytes to standard output and return the same exit code.
\<close>

theorem run_independent_of_input:
  "run args1 env1 inp1 = run args2 env2 inp2"
proof -
  have "run args env inp = (0, overflow_line)" for args env inp
  proof -
    have "overflow_guard 200 100"
      by (simp add: overflow_guard_iff)
    then show ?thesis
      by (simp add: run_def main_def main_with_def check_and_add_overflow start_def)
  qed
  then show ?thesis by simp
qed

text \<open>
  C10. Evaluating the guard never wraps: for every 8-bit \<open>a\<close> the promoted
  operand is the value of \<open>a\<close>, and the \<^verbatim>\<open>int\<close> subtraction \<^verbatim>\<open>UINT8_MAX - a\<close>
  yields the mathematical difference 255 - a, which lies between 0 and 255.
\<close>

theorem guard_subtraction_in_range:
  "sint (promote a) = uint a
   \<and> sint (UINT8_MAX - promote a) = sint UINT8_MAX - sint (promote a)
   \<and> sint (UINT8_MAX - promote a) = 255 - uint a
   \<and> 0 \<le> sint (UINT8_MAX - promote a)
   \<and> sint (UINT8_MAX - promote a) \<le> 255"
proof -
  have "sint UINT8_MAX = 255"
    by (simp add: UINT8_MAX_def)
  moreover have "0 \<le> 255 - uint a" "255 - uint a \<le> 255"
    using uint_nonnegative [of a] uint_u8_le [of a] by linarith+
  ultimately show ?thesis
    by (simp add: sint_guard_lhs sint_promote)
qed

end
